theory Spec2Isabelle
  imports Complex_Main
begin

section \<open>JavaScript numbers\<close>

text \<open>
  The estimator computes with JavaScript numbers. A number is modelled as a finite value,
  one of the two infinities, or NaN. Finite values are exact reals: the rounding error, the
  overflow and the signed zero of binary64 arithmetic are outside this model, so every
  statement below is about the arithmetic the code writes down, evaluated exactly.
  The special values follow the rules of the language: NaN absorbs every operation,
  an infinity times zero and the sum of opposite infinities are NaN.
  What depends on how binary64 rounds a sum, a product or a quotient (whether rounding a
  rounded value again returns the same double, for instance) has no statement here.
\<close>

datatype jsnum = Fin real | PosInf | NegInf | NaN

fun js_add :: "jsnum \<Rightarrow> jsnum \<Rightarrow> jsnum" where
  "js_add NaN _ = NaN"
| "js_add _ NaN = NaN"
| "js_add (Fin a) (Fin b) = Fin (a + b)"
| "js_add PosInf NegInf = NaN"
| "js_add NegInf PosInf = NaN"
| "js_add PosInf _ = PosInf"
| "js_add _ PosInf = PosInf"
| "js_add NegInf _ = NegInf"
| "js_add _ NegInf = NegInf"

definition js_neg :: "jsnum \<Rightarrow> jsnum" where
  "js_neg x = (case x of Fin a \<Rightarrow> Fin (- a) | PosInf \<Rightarrow> NegInf | NegInf \<Rightarrow> PosInf | NaN \<Rightarrow> NaN)"

definition js_scale_inf :: "jsnum \<Rightarrow> real \<Rightarrow> jsnum" where
  \<comment> \<open>an infinity times a finite value: the sign decides, zero gives NaN\<close>
  "js_scale_inf i a = (if a = 0 then NaN else if 0 < a then i else js_neg i)"

fun js_mul :: "jsnum \<Rightarrow> jsnum \<Rightarrow> jsnum" where
  "js_mul NaN _ = NaN"
| "js_mul _ NaN = NaN"
| "js_mul (Fin a) (Fin b) = Fin (a * b)"
| "js_mul (Fin a) PosInf = js_scale_inf PosInf a"
| "js_mul (Fin a) NegInf = js_scale_inf NegInf a"
| "js_mul PosInf (Fin b) = js_scale_inf PosInf b"
| "js_mul NegInf (Fin b) = js_scale_inf NegInf b"
| "js_mul PosInf PosInf = PosInf"
| "js_mul NegInf NegInf = PosInf"
| "js_mul PosInf NegInf = NegInf"
| "js_mul NegInf PosInf = NegInf"

text \<open>
  Every division in the program has a positive literal as divisor
  (\<open>/ 1_000_000\<close>, \<open>/ 100\<close>, \<open>/ 1000\<close>, \<open>/ 1000000\<close>), so the divisor is a
  real. A zero divisor is written out, since HOL's \<open>a / 0\<close> is \<open>0\<close>: the quotient is then
  an infinity of the sign of the dividend, and NaN for \<open>0 / 0\<close>.
\<close>

definition js_div :: "jsnum \<Rightarrow> real \<Rightarrow> jsnum" where
  "js_div x d =
     (case x of
        NaN \<Rightarrow> NaN
      | Fin a \<Rightarrow>
          if d \<noteq> 0 then Fin (a / d)
          else if a = 0 then NaN else if 0 < a then PosInf else NegInf
      | i \<Rightarrow> if d < 0 then js_neg i else i)"

text \<open>
  \<open>Math.round\<close> gives the nearest integer, a tie going up; it leaves the infinities and NaN.
\<close>

definition Math_round :: "jsnum \<Rightarrow> jsnum" where
  "Math_round x = (case x of Fin a \<Rightarrow> Fin (of_int \<lfloor>a + 1 / 2\<rfloor>) | y \<Rightarrow> y)"

definition Number_EPSILON :: real where
  "Number_EPSILON = 1 / 2 ^ 52"

text \<open>
  A property that is \<open>undefined\<close> (a key the object lacks) is \<open>None\<close>; in arithmetic
  \<open>undefined\<close> converts to NaN.
\<close>

definition ToNumber :: "jsnum option \<Rightarrow> jsnum" where
  "ToNumber v = (case v of None \<Rightarrow> NaN | Some x \<Rightarrow> x)"

section \<open>The analyzer\<close>

definition to2fR :: "jsnum \<Rightarrow> jsnum" where
  "to2fR float = js_div (Math_round (js_mul (js_add float (Fin Number_EPSILON)) (Fin 100))) 100"

definition to6fR :: "jsnum \<Rightarrow> jsnum" where
  "to6fR float =
     js_div (Math_round (js_mul (js_add float (Fin Number_EPSILON)) (Fin 1000000))) 1000000"

definition KWH_PER_GB :: real where
  "KWH_PER_GB = 81 / 100"

text \<open>
  An object literal is an association list in the order of its keys, which is the order a
  \<open>for ... in\<close> loop visits them; \<open>obj[key]\<close> is \<open>map_of\<close>.
\<close>

type_synonym table = "(string \<times> jsnum) list"

definition gridIntensities :: table where
  "gridIntensities =
     [(''dataCenter'', Fin 50), (''network'', Fin (43726 / 100)),
      (''device'', Fin (43726 / 100)), (''production'', Fin (43726 / 100))]"

text \<open>
  The source holds two revisions of the analyzer. They differ in one constant only, the
  share of \<open>dataCenter\<close> in the default contributions: 15 in the first, 14 in the second.
\<close>

datatype revision = Rev1 | Rev2

definition contributions :: "revision \<Rightarrow> table" where
  "contributions rv =
     [(''dataCenter'', Fin (case rv of Rev1 \<Rightarrow> 15 | Rev2 \<Rightarrow> 14)), (''network'', Fin 14),
      (''device'', Fin 53), (''production'', Fin 19)]"

record estimate =
  totalCo2EmissionsWeekKg :: jsnum
  consumedkWh :: jsnum

text \<open>
  The loop of \<open>calculateCO2Emissions\<close> over the keys of \<open>gridIntensities\<close>: each pass
  adds \<open>intensity * contribution\<close> to the running \<open>totalCo2PerGb\<close> (here \<open>acc\<close>), which
  starts at 0.
\<close>

fun totalCo2PerGb_loop :: "jsnum \<Rightarrow> table \<Rightarrow> table \<Rightarrow> jsnum" where
  "totalCo2PerGb_loop acc [] contrib = acc"
| "totalCo2PerGb_loop acc ((part, intensity) # rest) contrib =
     (let contribution = js_div (ToNumber (map_of contrib part)) 100
      in totalCo2PerGb_loop (js_add acc (js_mul intensity contribution)) rest contrib)"

definition totalCo2PerGb :: "table \<Rightarrow> table \<Rightarrow> jsnum" where
  "totalCo2PerGb gridInt contrib = totalCo2PerGb_loop (Fin 0) gridInt contrib"

definition calculateCO2Emissions :: "jsnum \<Rightarrow> jsnum \<Rightarrow> table \<Rightarrow> table \<Rightarrow> estimate" where
  "calculateCO2Emissions sizeKb downloads gridInt contrib =
     (let sizeGb = js_div sizeKb 1000000;
          co2EmissionsPerDownloadG = js_mul sizeGb (totalCo2PerGb gridInt contrib);
          totalCo2EmissionsWeekG = js_mul co2EmissionsPerDownloadG downloads
      in \<lparr>totalCo2EmissionsWeekKg = js_div totalCo2EmissionsWeekG 1000,
          consumedkWh = js_mul sizeGb (Fin KWH_PER_GB)\<rparr>)"

text \<open>
  The weekly report. Its fields \<open>consumedkWh\<close>, \<open>kg\<close> and \<open>t\<close> are
  \<open>week_consumedkWh\<close>, \<open>week_kg\<close> and \<open>week_t\<close> here.
\<close>

record report =
  week_consumedkWh :: jsnum
  week_kg :: jsnum
  week_t :: jsnum

definition emissionPerWeek :: "revision \<Rightarrow> jsnum \<Rightarrow> jsnum \<Rightarrow> report" where
  "emissionPerWeek rv sizeKb downloadsLastWeek =
     (let emissions = calculateCO2Emissions sizeKb downloadsLastWeek gridIntensities (contributions rv)
      in \<lparr>week_consumedkWh = to6fR (js_mul (consumedkWh emissions) downloadsLastWeek),
          week_kg = to6fR (totalCo2EmissionsWeekKg emissions),
          week_t = to2fR (js_div (totalCo2EmissionsWeekKg emissions) 1000)\<rparr>)"

text \<open>
  The invariant of the contribution table, in the words of the specification: the
  percentages sum to 100. The program never computes this sum.
\<close>

definition percentages_total :: "table \<Rightarrow> jsnum" where
  "percentages_total contrib = foldl js_add (Fin 0) (map snd contrib)"

section \<open>The batch handler\<close>

text \<open>
  \<open>Promise.allSettled\<close> turns each lookup into its outcome: fulfilled with a value or
  rejected with a reason. The two lookups are the collaborators of the handler and are
  parameters of the model: \<open>npm.stat\<close> gives an object whose \<open>body\<close> has the
  \<open>downloads\<close>, the size service an object with a \<open>size\<close>; either number may be
  missing from the object (\<open>undefined\<close>). The fields \<open>body\<close>, \<open>downloads\<close> and
  \<open>size\<close> are \<open>stat_body\<close>, \<open>body_downloads\<close> and \<open>details_size\<close> here.
\<close>

type_synonym reason = string

datatype 'a settled = fulfilled 'a | rejected reason

record stat_body =
  body_downloads :: "jsnum option"

record stat_value =
  stat_body :: stat_body

record details_value =
  details_size :: "jsnum option"

record timespan =
  span_start :: string
  span_end :: string

record listing =
  pkg_name :: string
  pkg_version :: "string option"

text \<open>
  The object built for one package. \<open>stat\<close> and \<open>details\<close> are always set, to the
  value or to \<open>null\<close> (\<open>None\<close>); \<open>error\<close> and \<open>emissionsPerWeek\<close> are set on some
  paths only and are \<open>None\<close> when the object lacks them.
\<close>

record item =
  item_name :: string
  item_version :: string
  item_stat :: "stat_value option"
  item_details :: "details_value option"
  item_error :: "reason option"
  item_emissionsPerWeek :: "report option"

text \<open>
  The callback that \<open>npmPackagesHandler\<close> runs on the two outcomes of a package.
  \<open>result.stat?.body.downloads\<close> is \<open>undefined\<close> when \<open>result.stat\<close> is \<open>null\<close>.
\<close>

definition listingResult ::
  "revision \<Rightarrow> bool \<Rightarrow> string \<Rightarrow> string \<Rightarrow> stat_value settled \<Rightarrow> details_value settled \<Rightarrow> item"
where
  "listingResult rv ignoreDownloads name version statResult detailsResult =
     (let result0 = \<lparr>item_name = name, item_version = version, item_stat = None,
                       item_details = None, item_error = None, item_emissionsPerWeek = None\<rparr>;
          result1 =
            (case statResult of
               fulfilled v \<Rightarrow> result0\<lparr>item_stat := Some v\<rparr>
             | rejected r \<Rightarrow> result0\<lparr>item_stat := None, item_error := Some r\<rparr>)
      in case detailsResult of
           fulfilled v \<Rightarrow>
             result1\<lparr>item_details := Some v,
                     item_emissionsPerWeek := Some
                       (emissionPerWeek rv (js_div (ToNumber (details_size v)) 1000)
                          (if ignoreDownloads then Fin 1
                           else ToNumber (case item_stat result1 of
                                            None \<Rightarrow> None
                                          | Some s \<Rightarrow> body_downloads (stat_body s))))\<rparr>
         | rejected r \<Rightarrow> result1\<lparr>item_details := None, item_error := Some r\<rparr>)"

definition npmPackagesHandler ::
  "revision \<Rightarrow> (string \<Rightarrow> string \<Rightarrow> string \<Rightarrow> stat_value settled) \<Rightarrow>
   (string \<Rightarrow> string \<Rightarrow> details_value settled) \<Rightarrow>
   timespan \<Rightarrow> listing list \<Rightarrow> bool \<Rightarrow> item list"
where
  "npmPackagesHandler rv npm_stat fetch_size timespan npmPackageVersionListings ignoreDownloads =
     map (\<lambda>l.
            let name = pkg_name l;
                version = (case pkg_version l of None \<Rightarrow> ''latest'' | Some v \<Rightarrow> v)
            in listingResult rv ignoreDownloads name version
                 (npm_stat name (span_start timespan) (span_end timespan))
                 (fetch_size name version))
         npmPackageVersionListings"

section \<open>Evaluation lemmas\<close>

lemma totalCo2PerGb_Rev1: "totalCo2PerGb gridIntensities (contributions Rev1) = Fin (3835436 / 10000)"
  by (simp add: totalCo2PerGb_def gridIntensities_def contributions_def ToNumber_def js_div_def)

lemma totalCo2PerGb_Rev2: "totalCo2PerGb gridIntensities (contributions Rev2) = Fin (3830436 / 10000)"
  by (simp add: totalCo2PerGb_def gridIntensities_def contributions_def ToNumber_def js_div_def)

lemma calc_fin:
  "calculateCO2Emissions (Fin s) (Fin n) gridIntensities (contributions rv) =
     \<lparr>totalCo2EmissionsWeekKg =
        Fin (s / 1000000 * (case rv of Rev1 \<Rightarrow> 3835436 / 10000 | Rev2 \<Rightarrow> 3830436 / 10000) * n / 1000),
      consumedkWh = Fin (s / 1000000 * (81 / 100))\<rparr>"
  by (cases rv)
    (simp_all add: calculateCO2Emissions_def totalCo2PerGb_Rev1 totalCo2PerGb_Rev2 js_div_def
       KWH_PER_GB_def)

lemma to6fR_Fin:
  "to6fR (Fin x) = Fin (of_int \<lfloor>(x + 1 / 2 ^ 52) * 1000000 + 1 / 2\<rfloor> / 1000000)"
  by (simp add: to6fR_def js_div_def Math_round_def Number_EPSILON_def)

lemma to2fR_Fin:
  "to2fR (Fin x) = Fin (of_int \<lfloor>(x + 1 / 2 ^ 52) * 100 + 1 / 2\<rfloor> / 100)"
  by (simp add: to2fR_def js_div_def Math_round_def Number_EPSILON_def)

lemma to6fR_zero: "to6fR (Fin 0) = Fin 0"
proof -
  have "\<lfloor>1000000 / 2 ^ 52 + 1 / 2 :: real\<rfloor> = 0" by (simp add: floor_eq_iff)
  then show ?thesis by (simp add: to6fR_Fin)
qed

lemma to2fR_zero: "to2fR (Fin 0) = Fin 0"
proof -
  have "\<lfloor>100 / 2 ^ 52 + 1 / 2 :: real\<rfloor> = 0" by (simp add: floor_eq_iff)
  then show ?thesis by (simp add: to2fR_Fin)
qed






section \<open>The special values\<close>

text \<open>NaN absorbs every operation; the rounding functions leave NaN and the infinities.\<close>

lemma js_add_NaN [simp]: "js_add x NaN = NaN" "js_add NaN x = NaN"
  by (cases x; simp)+

lemma js_mul_NaN [simp]: "js_mul x NaN = NaN" "js_mul NaN x = NaN"
  by (cases x; simp)+

lemma js_div_NaN [simp]: "js_div NaN d = NaN"
  by (simp add: js_div_def)

lemma to6fR_special [simp]: "to6fR NaN = NaN" "to6fR PosInf = PosInf" "to6fR NegInf = NegInf"
  by (simp_all add: to6fR_def js_div_def Math_round_def js_scale_inf_def js_neg_def)

lemma to2fR_special [simp]: "to2fR NaN = NaN" "to2fR PosInf = PosInf" "to2fR NegInf = NegInf"
  by (simp_all add: to2fR_def js_div_def Math_round_def js_scale_inf_def js_neg_def)


section \<open>The loop over the categories\<close>

lemma loop_NaN: "totalCo2PerGb_loop NaN gridInt contrib = NaN"
  by (induction gridInt) auto

lemma loop_missing:
  "(part, i) \<in> set gridInt \<Longrightarrow> map_of contrib part = None \<Longrightarrow>
   totalCo2PerGb_loop acc gridInt contrib = NaN"
proof (induction gridInt arbitrary: acc)
  case Nil
  then show ?case by simp
next
  case (Cons p rest)
  obtain k v where p: "p = (k, v)" by (cases p)
  show ?case
  proof (cases "p = (part, i)")
    case True
    with Cons.prems p show ?thesis by (simp add: ToNumber_def loop_NaN)
  next
    case False
    with Cons.prems have "(part, i) \<in> set rest" by simp
    with Cons.IH Cons.prems p show ?thesis by simp
  qed
qed

lemma loop_agree:
  "\<forall>part \<in> fst ` set gridInt. map_of c1 part = map_of c2 part \<Longrightarrow>
   totalCo2PerGb_loop acc gridInt c1 = totalCo2PerGb_loop acc gridInt c2"
  by (induction gridInt arbitrary: acc) auto

lemma map_of_Fin:
  "map_of (map (\<lambda>(part, x). (part, Fin x)) cr) k = map_option Fin (map_of cr k)"
  by (induction cr) auto

lemma loop_finite:
  "fst ` set g \<subseteq> fst ` set cr \<Longrightarrow>
   totalCo2PerGb_loop (Fin a) (map (\<lambda>(part, x). (part, Fin x)) g) (map (\<lambda>(part, x). (part, Fin x)) cr)
     = Fin (a + (\<Sum>(part, intensity)\<leftarrow>g. intensity * (the (map_of cr part) / 100)))"
proof (induction g arbitrary: a)
  case Nil
  then show ?case by simp
next
  case (Cons p g)
  obtain k v where p: "p = (k, v)" by (cases p)
  from Cons.prems p have "k \<in> fst ` set cr" by simp
  then obtain c where c: "map_of cr k = Some c"
    by (metis domD dom_map_of_conv_image_fst)
  from Cons.prems have sub: "fst ` set g \<subseteq> fst ` set cr" by simp
  show ?case
    using Cons.IH [OF sub] by (simp add: p c map_of_Fin ToNumber_def js_div_def add.assoc)
qed

section \<open>One package of the batch\<close>

lemma listingResult_name:
  "item_name (listingResult rv ign nm ver sr dr) = nm \<and> item_version (listingResult rv ign nm ver sr dr) = ver"
  by (cases sr; cases dr) (simp_all add: listingResult_def)

lemma listingResult_stat:
  "item_stat (listingResult rv ign nm ver sr dr) = (case sr of fulfilled v \<Rightarrow> Some v | rejected r \<Rightarrow> None)"
  by (cases sr; cases dr) (simp_all add: listingResult_def)

lemma listingResult_details:
  "item_details (listingResult rv ign nm ver sr dr) = (case dr of fulfilled v \<Rightarrow> Some v | rejected r \<Rightarrow> None)"
  by (cases sr; cases dr) (simp_all add: listingResult_def)

lemma listingResult_error:
  "item_error (listingResult rv ign nm ver sr dr) =
     (case dr of rejected r \<Rightarrow> Some r
      | fulfilled v \<Rightarrow> (case sr of rejected r \<Rightarrow> Some r | fulfilled w \<Rightarrow> None))"
  by (cases sr; cases dr) (simp_all add: listingResult_def)

lemma listingResult_both_rejected:
  "listingResult rv ign nm ver (rejected r1) (rejected r2) =
     \<lparr>item_name = nm, item_version = ver, item_stat = None, item_details = None,
      item_error = Some r2, item_emissionsPerWeek = None\<rparr>"
  by (simp add: listingResult_def)

lemma handler_nth:
  "i < length ls \<Longrightarrow>
   npmPackagesHandler rv npm_stat fetch_size ts ls ign ! i =
     listingResult rv ign (pkg_name (ls ! i))
       (case pkg_version (ls ! i) of None \<Rightarrow> ''latest'' | Some v \<Rightarrow> v)
       (npm_stat (pkg_name (ls ! i)) (span_start ts) (span_end ts))
       (fetch_size (pkg_name (ls ! i)) (case pkg_version (ls ! i) of None \<Rightarrow> ''latest'' | Some v \<Rightarrow> v))"
  by (simp add: npmPackagesHandler_def Let_def)

section \<open>The worked scenario\<close>


section \<open>Zero transfers and zero size\<close>

text \<open>
  C2, as stated. With no download the estimate would have both fields zero for every
  size. It has not: \<open>consumedkWh\<close> is the energy of one transfer and does not depend on
  the count; for 100000 kB it is 0.081.
\<close>

theorem zero_downloads_consumedkWh_counterexample:
  "\<not> (totalCo2EmissionsWeekKg
          (calculateCO2Emissions (Fin 100000) (Fin 0) gridIntensities (contributions Rev1)) = Fin 0
      \<and> consumedkWh
          (calculateCO2Emissions (Fin 100000) (Fin 0) gridIntensities (contributions Rev1)) = Fin 0)
   \<and> consumedkWh
        (calculateCO2Emissions (Fin 100000) (Fin 0) gridIntensities (contributions Rev1))
       = Fin (81 / 1000)
   \<and> consumedkWh
        (calculateCO2Emissions (Fin 100000) (Fin 0) gridIntensities (contributions Rev2))
       = Fin (81 / 1000)"
  by (simp add: calc_fin)

text \<open>
  C2, amended. For every finite size and no download, in both revisions, the weekly
  emissions of the estimate are zero and its \<open>consumedkWh\<close> is the size in GB times
  \<open>KWH_PER_GB\<close>; for size zero and every finite count both fields are zero; the weekly
  report is zero in all its fields in either case.
\<close>

theorem zero_downloads_or_zero_size:
  "calculateCO2Emissions (Fin s) (Fin 0) gridIntensities (contributions rv) =
     \<lparr>totalCo2EmissionsWeekKg = Fin 0, consumedkWh = Fin (s / 1000000 * KWH_PER_GB)\<rparr>
   \<and> calculateCO2Emissions (Fin 0) (Fin n) gridIntensities (contributions rv) =
     \<lparr>totalCo2EmissionsWeekKg = Fin 0, consumedkWh = Fin 0\<rparr>
   \<and> emissionPerWeek rv (Fin s) (Fin 0) =
     \<lparr>week_consumedkWh = Fin 0, week_kg = Fin 0, week_t = Fin 0\<rparr>
   \<and> emissionPerWeek rv (Fin 0) (Fin n) =
     \<lparr>week_consumedkWh = Fin 0, week_kg = Fin 0, week_t = Fin 0\<rparr>"
  by (simp add: emissionPerWeek_def calc_fin to6fR_zero to2fR_zero js_div_def KWH_PER_GB_def)

section \<open>Tonnes in the weekly report\<close>



section \<open>Linearity\<close>


section \<open>The blended figure\<close>

text \<open>
  C5. The blended \<open>totalCo2PerGb\<close> is the sum of \<open>intensity * (contribution / 100)\<close> over
  the categories of \<open>gridIntensities\<close>, for finite tables in which every such category
  has a contribution. A category that only \<open>contributions\<close> has changes nothing (the
  key sets are not compared). With the single category \<open>x\<close> at 100 in both tables the
  figure is 100. A category of \<open>gridIntensities\<close> that \<open>contributions\<close> lacks makes the
  figure NaN, and with it the weekly emissions of the estimate, for every size and count.
\<close>

theorem blended_figure:
  "(fst ` set g \<subseteq> fst ` set cr \<longrightarrow>
      totalCo2PerGb (map (\<lambda>(part, x). (part, Fin x)) g) (map (\<lambda>(part, x). (part, Fin x)) cr)
        = Fin (\<Sum>(part, intensity)\<leftarrow>g. intensity * (the (map_of cr part) / 100)))
   \<and> (extra \<notin> fst ` set gridInt \<longrightarrow>
         totalCo2PerGb gridInt ((extra, v) # contrib) = totalCo2PerGb gridInt contrib)
   \<and> totalCo2PerGb [(''x'', Fin 100)] [(''x'', Fin 100)] = Fin 100
   \<and> ((part, i) \<in> set gridInt \<and> map_of contrib part = None \<longrightarrow>
         totalCo2PerGb gridInt contrib = NaN
         \<and> totalCo2EmissionsWeekKg (calculateCO2Emissions sizeKb dls gridInt contrib) = NaN)"
proof -
  have a: "fst ` set g \<subseteq> fst ` set cr \<Longrightarrow>
      totalCo2PerGb (map (\<lambda>(part, x). (part, Fin x)) g) (map (\<lambda>(part, x). (part, Fin x)) cr)
        = Fin (\<Sum>(part, intensity)\<leftarrow>g. intensity * (the (map_of cr part) / 100))"
    using loop_finite [of g cr 0] by (simp add: totalCo2PerGb_def)
  have b: "extra \<notin> fst ` set gridInt \<Longrightarrow>
         totalCo2PerGb gridInt ((extra, v) # contrib) = totalCo2PerGb gridInt contrib"
    unfolding totalCo2PerGb_def by (rule loop_agree) auto
  have c: "totalCo2PerGb [(''x'', Fin 100)] [(''x'', Fin 100)] = Fin 100"
    by (simp add: totalCo2PerGb_def ToNumber_def js_div_def)
  have d: "(part, i) \<in> set gridInt \<Longrightarrow> map_of contrib part = None \<Longrightarrow>
         totalCo2PerGb gridInt contrib = NaN
         \<and> totalCo2EmissionsWeekKg (calculateCO2Emissions sizeKb dls gridInt contrib) = NaN"
    by (simp add: totalCo2PerGb_def calculateCO2Emissions_def loop_missing [of part i])
  from a b c d show ?thesis by blast
qed

text \<open>
  The hypotheses of C5 at concrete tables: two categories in different key order, the
  default tables with one more contribution, and the default intensities with no
  contribution for \<open>production\<close>.
\<close>

theorem blended_figure_witness:
  "totalCo2PerGb [(''a'', Fin 2), (''b'', Fin 4)] [(''b'', Fin 25), (''a'', Fin 50)] = Fin 2
   \<and> totalCo2PerGb gridIntensities ((''storage'', Fin 7) # contributions Rev2)
       = totalCo2PerGb gridIntensities (contributions Rev2)
   \<and> totalCo2PerGb gridIntensities [(''dataCenter'', Fin 15), (''network'', Fin 14), (''device'', Fin 53)] = NaN
   \<and> totalCo2EmissionsWeekKg (calculateCO2Emissions (Fin 100000) (Fin 1000) gridIntensities
        [(''dataCenter'', Fin 15), (''network'', Fin 14), (''device'', Fin 53)]) = NaN"
  using blended_figure [where g = "[(''a'', 2), (''b'', 4)]" and cr = "[(''b'', 25), (''a'', 50)]"
      and extra = "''storage''" and gridInt = gridIntensities and v = "Fin 7"
      and contrib = "contributions Rev2"]
    blended_figure [where part = "''production''" and i = "Fin (43726 / 100)" and gridInt = gridIntensities
      and contrib = "[(''dataCenter'', Fin 15), (''network'', Fin 14), (''device'', Fin 53)]"
      and sizeKb = "Fin 100000" and dls = "Fin 1000"]
  by (simp add: gridIntensities_def)

section \<open>No validation of the numbers\<close>



section \<open>The default contributions\<close>

text \<open>
  C7. The four percentages of the default contribution table would sum to 100. Those of
  the second revision do, as its comment says; those of the first revision sum to 101.
\<close>

theorem default_percentages_total:
  "percentages_total (contributions Rev1) = Fin 101
   \<and> percentages_total (contributions Rev2) = Fin 100"
  by (simp add: percentages_total_def contributions_def)

section \<open>The batch\<close>

text \<open>
  C8. For every list of listings and every outcome of the lookups, the handler returns
  one item for each listing, in the order of the listings, with the name and the version
  (\<open>latest\<close> when the listing has none) of its listing. A rejected lookup does not end
  the batch: a rejected stat lookup leaves \<open>stat\<close> null and sets \<open>error\<close>, a rejected
  size lookup leaves \<open>details\<close> null and sets \<open>error\<close> to its reason; a fulfilled
  lookup stores its value, and \<open>error\<close> is absent when both are fulfilled.
\<close>

theorem batch_one_item_per_listing:
  "length (npmPackagesHandler rv npm_stat fetch_size ts ls ign) = length ls
   \<and> (\<forall>i < length ls.
        let out = npmPackagesHandler rv npm_stat fetch_size ts ls ign ! i;
            nm = pkg_name (ls ! i);
            ver = (case pkg_version (ls ! i) of None \<Rightarrow> ''latest'' | Some v \<Rightarrow> v);
            statResult = npm_stat nm (span_start ts) (span_end ts);
            detailsResult = fetch_size nm ver
        in item_name out = nm \<and> item_version out = ver
           \<and> (\<forall>r. statResult = rejected r \<longrightarrow> item_stat out = None \<and> item_error out \<noteq> None)
           \<and> (\<forall>r. detailsResult = rejected r \<longrightarrow> item_details out = None \<and> item_error out = Some r)
           \<and> (\<forall>v. statResult = fulfilled v \<longrightarrow> item_stat out = Some v)
           \<and> (\<forall>v. detailsResult = fulfilled v \<longrightarrow> item_details out = Some v)
           \<and> (\<forall>v w. statResult = fulfilled v \<and> detailsResult = fulfilled w \<longrightarrow> item_error out = None))"
proof -
  have len: "length (npmPackagesHandler rv npm_stat fetch_size ts ls ign) = length ls"
    by (simp add: npmPackagesHandler_def)
  show ?thesis
    unfolding Let_def
    by (auto simp: len handler_nth listingResult_name listingResult_stat
        listingResult_details listingResult_error split: settled.splits)
qed

text \<open>
  C8 on three packages: the stat lookup of the first and the size lookup of the second
  are rejected.
\<close>

theorem batch_one_item_per_listing_witness:
  "length (npmPackagesHandler Rev1
      (\<lambda>nm s e. if nm = ''left-pad'' then rejected ''ETIMEDOUT''
                 else fulfilled \<lparr>stat_body = \<lparr>body_downloads = Some (Fin 1000)\<rparr>\<rparr>)
      (\<lambda>nm ver. if nm = ''react'' then rejected ''ENOTFOUND''
                  else fulfilled \<lparr>details_size = Some (Fin 100000000)\<rparr>)
      \<lparr>span_start = ''2024-01-02'', span_end = ''2024-01-31''\<rparr>
      [\<lparr>pkg_name = ''left-pad'', pkg_version = None\<rparr>,
       \<lparr>pkg_name = ''react'', pkg_version = Some ''17.0.2''\<rparr>,
       \<lparr>pkg_name = ''express'', pkg_version = Some ''4.17.1''\<rparr>] False) = 3
   \<and> map item_name (npmPackagesHandler Rev1
      (\<lambda>nm s e. if nm = ''left-pad'' then rejected ''ETIMEDOUT''
                 else fulfilled \<lparr>stat_body = \<lparr>body_downloads = Some (Fin 1000)\<rparr>\<rparr>)
      (\<lambda>nm ver. if nm = ''react'' then rejected ''ENOTFOUND''
                  else fulfilled \<lparr>details_size = Some (Fin 100000000)\<rparr>)
      \<lparr>span_start = ''2024-01-02'', span_end = ''2024-01-31''\<rparr>
      [\<lparr>pkg_name = ''left-pad'', pkg_version = None\<rparr>,
       \<lparr>pkg_name = ''react'', pkg_version = Some ''17.0.2''\<rparr>,
       \<lparr>pkg_name = ''express'', pkg_version = Some ''4.17.1''\<rparr>] False)
     = [''left-pad'', ''react'', ''express'']
   \<and> map item_error (npmPackagesHandler Rev1
      (\<lambda>nm s e. if nm = ''left-pad'' then rejected ''ETIMEDOUT''
                 else fulfilled \<lparr>stat_body = \<lparr>body_downloads = Some (Fin 1000)\<rparr>\<rparr>)
      (\<lambda>nm ver. if nm = ''react'' then rejected ''ENOTFOUND''
                  else fulfilled \<lparr>details_size = Some (Fin 100000000)\<rparr>)
      \<lparr>span_start = ''2024-01-02'', span_end = ''2024-01-31''\<rparr>
      [\<lparr>pkg_name = ''left-pad'', pkg_version = None\<rparr>,
       \<lparr>pkg_name = ''react'', pkg_version = Some ''17.0.2''\<rparr>,
       \<lparr>pkg_name = ''express'', pkg_version = Some ''4.17.1''\<rparr>] False)
     = [Some ''ETIMEDOUT'', Some ''ENOTFOUND'', None]"
  using batch_one_item_per_listing [of Rev1
      "\<lambda>nm s e. if nm = ''left-pad'' then rejected ''ETIMEDOUT''
                 else fulfilled \<lparr>stat_body = \<lparr>body_downloads = Some (Fin 1000)\<rparr>\<rparr>"
      "\<lambda>nm ver. if nm = ''react'' then rejected ''ENOTFOUND''
                  else fulfilled \<lparr>details_size = Some (Fin 100000000)\<rparr>"
      "\<lparr>span_start = ''2024-01-02'', span_end = ''2024-01-31''\<rparr>"
      "[\<lparr>pkg_name = ''left-pad'', pkg_version = None\<rparr>,
       \<lparr>pkg_name = ''react'', pkg_version = Some ''17.0.2''\<rparr>,
       \<lparr>pkg_name = ''express'', pkg_version = Some ''4.17.1''\<rparr>]" False]
  by (simp add: npmPackagesHandler_def listingResult_def)

text \<open>
  C10. When both lookups of a package are rejected, its item has \<open>stat\<close> and
  \<open>details\<close> null, no \<open>emissionsPerWeek\<close>, and one \<open>error\<close>: the reason of the size
  lookup. The reason of the stat lookup, assigned first, is overwritten and appears
  nowhere in the item.
\<close>

theorem both_lookups_fail_error:
  "i < length ls \<Longrightarrow>
   npm_stat (pkg_name (ls ! i)) (span_start ts) (span_end ts) = rejected r1 \<Longrightarrow>
   fetch_size (pkg_name (ls ! i)) (case pkg_version (ls ! i) of None \<Rightarrow> ''latest'' | Some v \<Rightarrow> v)
     = rejected r2 \<Longrightarrow>
   npmPackagesHandler rv npm_stat fetch_size ts ls ign ! i =
     \<lparr>item_name = pkg_name (ls ! i),
      item_version = (case pkg_version (ls ! i) of None \<Rightarrow> ''latest'' | Some v \<Rightarrow> v),
      item_stat = None, item_details = None, item_error = Some r2,
      item_emissionsPerWeek = None\<rparr>"
  by (simp add: handler_nth listingResult_both_rejected)

text \<open>
  C10 on one package whose lookups are rejected with different reasons.
\<close>

theorem both_lookups_fail_error_witness:
  "npmPackagesHandler Rev2 (\<lambda>nm s e. rejected ''stat: ETIMEDOUT'') (\<lambda>nm ver. rejected ''size: ENOTFOUND'')
      \<lparr>span_start = ''2024-01-02'', span_end = ''2024-01-31''\<rparr>
      [\<lparr>pkg_name = ''left-pad'', pkg_version = None\<rparr>] False ! 0
    = \<lparr>item_name = ''left-pad'', item_version = ''latest'', item_stat = None, item_details = None,
       item_error = Some ''size: ENOTFOUND'', item_emissionsPerWeek = None\<rparr>
   \<and> item_error (npmPackagesHandler Rev2 (\<lambda>nm s e. rejected ''stat: ETIMEDOUT'') (\<lambda>nm ver. rejected ''size: ENOTFOUND'')
      \<lparr>span_start = ''2024-01-02'', span_end = ''2024-01-31''\<rparr>
      [\<lparr>pkg_name = ''left-pad'', pkg_version = None\<rparr>] False ! 0) \<noteq> Some ''stat: ETIMEDOUT''"
  using both_lookups_fail_error [of 0 "[\<lparr>pkg_name = ''left-pad'', pkg_version = None\<rparr>]"
      "\<lambda>nm s e. rejected ''stat: ETIMEDOUT''" "\<lparr>span_start = ''2024-01-02'', span_end = ''2024-01-31''\<rparr>"
      "''stat: ETIMEDOUT''" "\<lambda>nm ver. rejected ''size: ENOTFOUND''" "''size: ENOTFOUND''" Rev2 False]
  by simp

end
